theory Spec2Isabelle
  imports Complex_Main "HOL-Library.AList"
begin

section \<open>Python values shared by both modules\<close>

text \<open>
  Strings are lists of code points below 256, which is what a HOL \<open>char\<close> holds.
  Exceptions are values: a function that may raise returns \<open>exn + 'a\<close>, with
  \<open>Inl\<close> for the exception.
\<close>

datatype exn = KeyError string | TypeError | JSONDecodeError | OSError | CollaboratorError string

text \<open>\<open>str.isspace\<close> on one code point below 256.\<close>

definition is_space :: "char \<Rightarrow> bool" where
  "is_space c = ((of_char c :: nat) \<in> set [9, 10, 11, 12, 13, 28, 29, 30, 31, 32, 133, 160])"

text \<open>\<open>str.strip()\<close>: whitespace is removed at both ends.\<close>

definition strip :: "string \<Rightarrow> string" where
  "strip s = rev (dropWhile is_space (rev (dropWhile is_space s)))"

text \<open>\<open>str.lower()\<close>: A to Z and the upper-case letters of Latin-1 move up by 32.\<close>

definition lower_char :: "char \<Rightarrow> char" where
  "lower_char c =
     (let n = (of_char c :: nat)
      in if (65 \<le> n \<and> n \<le> 90) \<or> (192 \<le> n \<and> n \<le> 222 \<and> n \<noteq> 215)
         then char_of (n + 32) else c)"

definition lower :: "string \<Rightarrow> string" where
  "lower s = map lower_char s"

text \<open>\<open>s.split('\n')\<close>: one more piece than there are newlines.\<close>

fun split_lines :: "string \<Rightarrow> string list" where
  "split_lines [] = [[]]"
| "split_lines (c # cs) =
     (if c = CHR 0x0A then [] # split_lines cs
      else (case split_lines cs of
              [] \<Rightarrow> [[c]]
            | l # ls \<Rightarrow> (c # l) # ls))"

text \<open>\<open>s.startswith(p)\<close>.\<close>

definition startswith :: "string \<Rightarrow> string \<Rightarrow> bool" where
  "startswith s p = (take (length p) s = p)"

text \<open>
  \<open>s.replace(old, "")\<close>: every occurrence of \<open>old\<close>, found left to right without
  overlap, is removed.
\<close>

function remove_all :: "string \<Rightarrow> string \<Rightarrow> string" where
  "remove_all old [] = []"
| "remove_all old (c # cs) =
     (if old \<noteq> [] \<and> startswith (c # cs) old
      then remove_all old (drop (length old) (c # cs))
      else c # remove_all old cs)"
  by pat_completeness auto
termination
  by (relation "measure (\<lambda>(old, s). length s)") auto

text \<open>\<open>sep.join(parts)\<close>.\<close>

fun join :: "string \<Rightarrow> string list \<Rightarrow> string" where
  "join sep [] = []"
| "join sep [p] = p"
| "join sep (p # q # ps) = p @ sep @ join sep (q # ps)"

text \<open>\<open>d.get(k, default)\<close> on a dict kept as an association list.\<close>

definition get_default :: "(string \<times> string) list \<Rightarrow> string \<Rightarrow> string \<Rightarrow> string" where
  "get_default d k dflt = (case map_of d k of None \<Rightarrow> dflt | Some v \<Rightarrow> v)"

section \<open>The hybrid pipeline (\<open>src/core/hybrid_rag_pipeline.py\<close>)\<close>

text \<open>
  A vector store answers \<open>similarity_search_with_score(question, k)\<close> with a list of
  documents and scores, or raises. The language model answers a prompt with a text, or
  raises. Both are outside the repository, so they are parameters of the pipeline. A score
  is a finite float; the only arithmetic on it is the comparison with the constant 0.7,
  which is the same on the reals.
\<close>

record document =
  page_content :: string
  doc_metadata :: "(string \<times> string) list"

type_synonym vector_store = "string \<Rightarrow> nat \<Rightarrow> exn + (document \<times> real) list"

record pipeline =
  qa_vector_store :: "vector_store option"
  doc_vector_store :: "vector_store option"
  llm :: "string \<Rightarrow> exn + string"

text \<open>The calls that leave the pipeline, in the order they are made.\<close>

datatype event = Qa_search string nat | Doc_search string nat | Llm_call string

record qa_result =
  qa_question :: string
  qa_answer :: string
  qa_context :: string
  qa_category :: string
  qa_source :: string
  qa_similarity_score :: real
  qa_content :: string

record doc_result =
  doc_title :: string
  doc_url :: string
  doc_content :: string
  doc_similarity_score :: real
  doc_meta :: "(string \<times> string) list"

datatype source_ref =
  Qa_pair_source string string string string real
| Document_chunk_source string string real

record envelope =
  env_question :: string
  env_timestamp :: string
  env_sources_used :: "source_ref list"
  env_answer :: string
  env_confidence :: string
  env_method :: string

text \<open>
  The loop over the lines of a stored entry: the last line with each label wins, the label
  is removed wherever it occurs in that line, and the rest is stripped. The state is
  (context, question, answer).
\<close>

fun parse_line :: "string \<times> string \<times> string \<Rightarrow> string \<Rightarrow> string \<times> string \<times> string" where
  "parse_line (c, q, a) line =
     (if startswith line ''Context:'' then (strip (remove_all ''Context:'' line), q, a)
      else if startswith line ''Question:'' then (c, strip (remove_all ''Question:'' line), a)
      else if startswith line ''Answer:'' then (c, q, strip (remove_all ''Answer:'' line))
      else (c, q, a))"

definition parse_qa :: "document \<times> real \<Rightarrow> qa_result" where
  "parse_qa ds =
     (case ds of (doc, score) \<Rightarrow>
        (case foldl parse_line ([], [], []) (split_lines (page_content doc)) of
           (c, q, a) \<Rightarrow>
             \<lparr>qa_question = q, qa_answer = a, qa_context = c,
              qa_category = get_default (doc_metadata doc) ''category'' ''Unknown'',
              qa_source = get_default (doc_metadata doc) ''source'' ''Unknown'',
              qa_similarity_score = score,
              qa_content = page_content doc\<rparr>))"

text \<open>
  \<open>search_qa_data\<close>: no store, no call and no result; an exception of the store is caught
  and gives the empty list.
\<close>

definition search_qa_data :: "pipeline \<Rightarrow> string \<Rightarrow> nat \<Rightarrow> event list \<times> qa_result list" where
  "search_qa_data p question k =
     (case qa_vector_store p of
        None \<Rightarrow> ([], [])
      | Some store \<Rightarrow>
          (case store question k of
             Inl e \<Rightarrow> ([Qa_search question k], [])
           | Inr docs \<Rightarrow> ([Qa_search question k], map parse_qa docs)))"

definition chunk_of :: "document \<times> real \<Rightarrow> doc_result" where
  "chunk_of ds =
     (case ds of (doc, score) \<Rightarrow>
        \<lparr>doc_title = get_default (doc_metadata doc) ''title'' ''Unknown'',
         doc_url = get_default (doc_metadata doc) ''url'' [],
         doc_content = page_content doc,
         doc_similarity_score = score,
         doc_meta = doc_metadata doc\<rparr>)"

definition search_documents :: "pipeline \<Rightarrow> string \<Rightarrow> nat \<Rightarrow> event list \<times> doc_result list" where
  "search_documents p question k =
     (case doc_vector_store p of
        None \<Rightarrow> ([], [])
      | Some store \<Rightarrow>
          (case store question k of
             Inl e \<Rightarrow> ([Doc_search question k], [])
           | Inr docs \<Rightarrow> ([Doc_search question k], map chunk_of docs)))"

definition base_prompt :: "string \<Rightarrow> string" where
  "base_prompt question =
     ''<s>[INST] You are a helpful financial advisor assistant. Answer the following question based on your general knowledge of financial planning and investing principles. If you''
     @ [CHR 0x27] @ ''re not confident about the answer, say so.'' @ [CHR 0x0A, CHR 0x0A]
     @ ''Question: '' @ question @ [CHR 0x0A, CHR 0x0A]
     @ ''Provide a helpful, accurate response based on general financial knowledge. [/INST]''"

definition get_base_llm_answer :: "pipeline \<Rightarrow> string \<Rightarrow> event list \<times> (exn + string)" where
  "get_base_llm_answer p question = ([Llm_call (base_prompt question)], llm p (base_prompt question))"

definition context_part :: "doc_result \<Rightarrow> string" where
  "context_part d = ''Source: '' @ doc_title d @ [CHR 0x0A] @ doc_content d"

definition chunk_source :: "doc_result \<Rightarrow> source_ref" where
  "chunk_source d = Document_chunk_source (doc_title d) (doc_url d) (doc_similarity_score d)"

definition document_prompt :: "string \<Rightarrow> string \<Rightarrow> string" where
  "document_prompt ctx question =
     ''<s>[INST] You are a helpful financial advisor assistant. Use the following context to answer the user''
     @ [CHR 0x27] @ ''s question. If the context doesn''
     @ [CHR 0x27] @ ''t contain enough information, say so.'' @ [CHR 0x0A, CHR 0x0A]
     @ ''Context:'' @ [CHR 0x0A] @ ctx @ [CHR 0x0A, CHR 0x0A]
     @ ''Question: '' @ question @ [CHR 0x0A, CHR 0x0A]
     @ ''Provide a clear, accurate answer based on the context provided. [/INST]''"

text \<open>Tier 3 of \<open>ask_question\<close>.\<close>

definition tier3 :: "pipeline \<Rightarrow> string \<Rightarrow> string \<Rightarrow> event list \<Rightarrow> event list \<times> (exn + envelope)" where
  "tier3 p now question tr =
     (case get_base_llm_answer p question of
        (ev, Inl e) \<Rightarrow> (tr @ ev, Inl e)
      | (ev, Inr a) \<Rightarrow>
          (tr @ ev,
           Inr \<lparr>env_question = question, env_timestamp = now, env_sources_used = [],
                env_answer = a, env_confidence = ''low'', env_method = ''base_llm''\<rparr>))"

text \<open>Tier 2 of \<open>ask_question\<close>, falling through to tier 3.\<close>

definition tier2 :: "pipeline \<Rightarrow> string \<Rightarrow> string \<Rightarrow> bool \<Rightarrow> event list \<Rightarrow> event list \<times> (exn + envelope)" where
  "tier2 p now question use_hybrid tr =
     (if doc_vector_store p \<noteq> None \<and> use_hybrid then
        (case search_documents p question 3 of
           (ev, doc_results) \<Rightarrow>
             if doc_results \<noteq> [] then
               (let prompt = document_prompt (join [CHR 0x0A, CHR 0x0A] (map context_part doc_results)) question
                in case llm p prompt of
                     Inl e \<Rightarrow> (tr @ ev @ [Llm_call prompt], Inl e)
                   | Inr a \<Rightarrow>
                       (tr @ ev @ [Llm_call prompt],
                        Inr \<lparr>env_question = question, env_timestamp = now,
                             env_sources_used = map chunk_source doc_results,
                             env_answer = a, env_confidence = ''medium'',
                             env_method = ''document_search''\<rparr>))
             else tier3 p now question (tr @ ev))
      else tier3 p now question tr)"

text \<open>
  \<open>ask_question\<close>. \<open>now\<close> is the text of \<open>datetime.now().isoformat()\<close>. The result is
  the list of outside calls and either the exception that ended the call or the envelope.
\<close>

definition ask_question :: "pipeline \<Rightarrow> string \<Rightarrow> string \<Rightarrow> bool \<Rightarrow> event list \<times> (exn + envelope)" where
  "ask_question p now question use_hybrid =
     (if qa_vector_store p \<noteq> None \<and> use_hybrid then
        (case search_qa_data p question 2 of
           (ev, qa_results) \<Rightarrow>
             (case qa_results of
                [] \<Rightarrow> tier2 p now question use_hybrid ev
              | best_qa # rest \<Rightarrow>
                  if qa_similarity_score best_qa > 0.7 then
                    (ev,
                     Inr \<lparr>env_question = question, env_timestamp = now,
                          env_sources_used =
                            [Qa_pair_source (qa_question best_qa) (qa_context best_qa)
                               (qa_category best_qa) (qa_source best_qa)
                               (qa_similarity_score best_qa)],
                          env_answer = qa_answer best_qa, env_confidence = ''high'',
                          env_method = ''qa_data''\<rparr>)
                  else tier2 p now question use_hybrid ev))
      else tier2 p now question use_hybrid [])"

section \<open>The content manager (\<open>src/utils/qa_content_manager.py\<close>)\<close>

text \<open>
  An entry is a Python dict with string values, kept as an association list in insertion
  order. The same dict object sits in the main list and in a category bucket, and is changed
  in place, so the lists hold references into a heap of dicts. \<open>json.dump\<close> writes the
  values behind the references; \<open>json.load\<close> builds new objects. A reference is
  the index of its dict in the heap, and a new dict goes to the end of the heap, so the
  references a manager holds are below the length of its heap.
\<close>

type_synonym qa_pair = "(string \<times> string) list"

type_synonym ref = nat

type_synonym heap = "qa_pair list"

record metadata =
  total_qa_pairs :: int
  md_categories :: "string list"
  md_category_counts :: "(string \<times> int) list"
  md_sources :: "string list"

record qa_data =
  metadata :: metadata
  qa_pairs :: "ref list"
  categories :: "(string \<times> ref list) list"

record qa_json =
  json_metadata :: metadata
  json_qa_pairs :: "qa_pair list"
  json_categories :: "(string \<times> qa_pair list) list"

text \<open>
  A file holds the text of JSON \<open>null\<close>, the text of a knowledge base, or a text that
  \<open>json.load\<close> rejects, such as the proper prefix an interrupted \<open>json.dump\<close> leaves.
\<close>

datatype file_content = Store_text "qa_json option" | Malformed

type_synonym fs = "string \<rightharpoonup> file_content"

record manager =
  qa_data_file :: string
  qa_data :: "qa_data option"
  heap :: heap

text \<open>Truth value of an optional string argument: \<open>None\<close> and \<open>""\<close> are false.\<close>

definition truthy :: "string option \<Rightarrow> bool" where
  "truthy x = (case x of None \<Rightarrow> False | Some s \<Rightarrow> s \<noteq> [])"

definition normalized :: "string \<Rightarrow> string" where
  "normalized q = strip (lower q)"

subsection \<open>Reading and writing the file\<close>

definition snapshot :: "heap \<Rightarrow> qa_data \<Rightarrow> qa_json" where
  "snapshot h d =
     \<lparr>json_metadata = metadata d,
      json_qa_pairs = map (\<lambda>r. h ! r) (qa_pairs d),
      json_categories = map (\<lambda>(c, rs). (c, map (\<lambda>r. h ! r) rs)) (categories d)\<rparr>"

definition alloc_all :: "qa_pair list \<Rightarrow> heap \<Rightarrow> ref list \<times> heap" where
  "alloc_all ps h = ([length h ..< length h + length ps], h @ ps)"

fun alloc_buckets :: "(string \<times> qa_pair list) list \<Rightarrow> heap \<Rightarrow> (string \<times> ref list) list \<times> heap" where
  "alloc_buckets [] h = ([], h)"
| "alloc_buckets ((c, ps) # bs) h =
     (case alloc_all ps h of
        (rs, h1) \<Rightarrow> (case alloc_buckets bs h1 of (rbs, h2) \<Rightarrow> ((c, rs) # rbs, h2)))"

definition materialize :: "qa_json \<Rightarrow> heap \<Rightarrow> qa_data \<times> heap" where
  "materialize j h =
     (case alloc_all (json_qa_pairs j) h of
        (rs, h1) \<Rightarrow>
          (case alloc_buckets (json_categories j) h1 of
             (cats, h2) \<Rightarrow>
               (\<lparr>metadata = json_metadata j, qa_pairs = rs, categories = cats\<rparr>, h2)))"

text \<open>
  \<open>load_qa_data\<close>: a missing file leaves the manager as it is; otherwise \<open>qa_data\<close> is
  whatever the file holds, and the message that follows reads
  \<open>self.qa_data['metadata']\<close>, which raises on \<open>null\<close>.
\<close>

definition load_qa_data :: "fs \<Rightarrow> manager \<Rightarrow> manager \<times> (exn + unit)" where
  "load_qa_data files m =
     (case files (qa_data_file m) of
        None \<Rightarrow> (m, Inr ())
      | Some Malformed \<Rightarrow> (m, Inl JSONDecodeError)
      | Some (Store_text None) \<Rightarrow> (m\<lparr>qa_data := None\<rparr>, Inl TypeError)
      | Some (Store_text (Some j)) \<Rightarrow>
          (case materialize j (heap m) of
             (d, h) \<Rightarrow> (m\<lparr>qa_data := Some d, heap := h\<rparr>, Inr ())))"

text \<open>The first lines of every operation: \<open>if not self.qa_data: self.load_qa_data()\<close>.\<close>

definition ensure_loaded :: "fs \<Rightarrow> manager \<Rightarrow> manager \<times> (exn + unit)" where
  "ensure_loaded files m =
     (case qa_data m of
        Some d \<Rightarrow> (m, Inr ())
      | None \<Rightarrow> load_qa_data files m)"

text \<open>
  \<open>open(path, 'w')\<close> followed by \<open>json.dump\<close>. Opening may fail, and then the file is
  as before; opening truncates, so a dump that fails leaves a text that is not JSON.
\<close>

datatype write_outcome = Written | Open_failed | Dump_failed

definition write_json :: "write_outcome \<Rightarrow> string \<Rightarrow> qa_json option \<Rightarrow> fs \<Rightarrow> fs \<times> (exn + unit)" where
  "write_json w path v files =
     (case w of
        Written \<Rightarrow> (files(path \<mapsto> Store_text v), Inr ())
      | Open_failed \<Rightarrow> (files, Inl OSError)
      | Dump_failed \<Rightarrow> (files(path \<mapsto> Malformed), Inl OSError))"

record io =
  read_fails :: bool
  backup_write :: write_outcome
  primary_write :: write_outcome

definition backup_file :: "string \<Rightarrow> string" where
  "backup_file timestamp = ''qa_backups/qa_backup_'' @ timestamp @ ''.json''"

text \<open>
  \<open>save_qa_data\<close>. \<open>timestamp\<close> is the text of
  \<open>datetime.now().strftime("%Y%m%d_%H%M%S")\<close>; \<open>env\<close> says which file operations
  fail.
\<close>

definition save_qa_data :: "io \<Rightarrow> string \<Rightarrow> string option \<Rightarrow> manager \<Rightarrow> fs \<Rightarrow> fs \<times> (exn + unit)" where
  "save_qa_data env timestamp output_file m files =
     (let out = (case output_file of None \<Rightarrow> qa_data_file m | Some f \<Rightarrow> f);
          backup =
            (case files out of
               None \<Rightarrow> (files, Inr ())
             | Some Malformed \<Rightarrow> (files, Inl JSONDecodeError)
             | Some (Store_text current_data) \<Rightarrow>
                 if read_fails env then (files, Inl OSError)
                 else write_json (backup_write env) (backup_file timestamp) current_data files)
      in case backup of
           (files1, Inl e) \<Rightarrow> (files1, Inl e)
         | (files1, Inr u) \<Rightarrow>
             write_json (primary_write env) out (map_option (snapshot (heap m)) (qa_data m)) files1)"

subsection \<open>Adding, updating and deleting\<close>

definition append_new :: "string \<Rightarrow> string list \<Rightarrow> string list" where
  "append_new x xs = (if x \<in> set xs then xs else xs @ [x])"

text \<open>
  \<open>if cat not in categories: categories[cat] = []\<close> and then
  \<open>categories[cat].append(qa_pair)\<close>.
\<close>

definition bucket_append :: "string \<Rightarrow> ref \<Rightarrow> (string \<times> ref list) list \<Rightarrow> (string \<times> ref list) list" where
  "bucket_append cat r cats =
     AList.map_entry cat (\<lambda>rs. rs @ [r])
       (if map_of cats cat = None then cats @ [(cat, [])] else cats)"

definition add_qa_pair ::
  "fs \<Rightarrow> string \<Rightarrow> string \<Rightarrow> string \<Rightarrow> string \<Rightarrow> string \<Rightarrow> string \<Rightarrow> string \<Rightarrow> manager
     \<Rightarrow> manager \<times> (exn + ref)" where
  "add_qa_pair files now question answer ctx category source confidence m =
     (case ensure_loaded files m of
        (m1, Inl e) \<Rightarrow> (m1, Inl e)
      | (m1, Inr u) \<Rightarrow>
          (case qa_data m1 of
             None \<Rightarrow> (m1, Inl TypeError)
           | Some d \<Rightarrow>
               (let qa_pair = [(''question'', question), (''answer'', answer), (''context'', ctx),
                               (''source'', source), (''doc_id'', ''manual''),
                               (''category'', category), (''confidence'', confidence),
                               (''added_date'', now)];
                    r = length (heap m1);
                    md = metadata d
                in (m1\<lparr>heap := heap m1 @ [qa_pair],
                       qa_data := Some
                         \<lparr>metadata =
                            md\<lparr>total_qa_pairs := total_qa_pairs md + 1,
                               md_categories := append_new category (md_categories md),
                               md_sources := append_new source (md_sources md)\<rparr>,
                          qa_pairs = qa_pairs d @ [r],
                          categories = bucket_append category r (categories d)\<rparr>\<rparr>,
                    Inr r))))"

text \<open>
  The search loop of \<open>update_qa_pair\<close> and \<open>delete_qa_pair\<close>: the first entry whose
  normalized question is \<open>key\<close>, with its index. Reading \<open>qa_pair['question']\<close> raises on
  an entry without that key.
\<close>

fun find_question :: "heap \<Rightarrow> string \<Rightarrow> ref list \<Rightarrow> nat \<Rightarrow> exn + (nat \<times> ref) option" where
  "find_question h key [] i = Inr None"
| "find_question h key (r # rs) i =
     (case map_of (h ! r) ''question'' of
        None \<Rightarrow> Inl (KeyError ''question'')
      | Some q \<Rightarrow>
          if normalized q = key then Inr (Some (i, r))
          else find_question h key rs (Suc i))"

text \<open>\<open>[qa for qa in bucket if qa['question'] != q]\<close>.\<close>

fun bucket_without :: "heap \<Rightarrow> string \<Rightarrow> ref list \<Rightarrow> exn + ref list" where
  "bucket_without h q [] = Inr []"
| "bucket_without h q (r # rs) =
     (case map_of (h ! r) ''question'' of
        None \<Rightarrow> Inl (KeyError ''question'')
      | Some q' \<Rightarrow>
          (case bucket_without h q rs of
             Inl e \<Rightarrow> Inl e
           | Inr rs' \<Rightarrow> Inr (if q' \<noteq> q then r # rs' else rs')))"

definition set_if :: "string \<Rightarrow> string option \<Rightarrow> qa_pair \<Rightarrow> qa_pair" where
  "set_if k v qa = (if truthy v then AList.update k (the v) qa else qa)"

definition update_qa_pair ::
  "fs \<Rightarrow> string \<Rightarrow> string \<Rightarrow> string option \<Rightarrow> string option \<Rightarrow> string option \<Rightarrow> string option
     \<Rightarrow> manager \<Rightarrow> manager \<times> (exn + ref option)" where
  "update_qa_pair files now question new_answer new_context new_category new_confidence m =
     (case ensure_loaded files m of
        (m1, Inl e) \<Rightarrow> (m1, Inl e)
      | (m1, Inr u) \<Rightarrow>
          (case qa_data m1 of
             None \<Rightarrow> (m1, Inl TypeError)
           | Some d \<Rightarrow>
               (case find_question (heap m1) (normalized question) (qa_pairs d) 0 of
                  Inl e \<Rightarrow> (m1, Inl e)
                | Inr None \<Rightarrow> (m1, Inr None)
                | Inr (Some (i, r)) \<Rightarrow>
                    (let qa = heap m1 ! r in
                     case map_of qa ''answer'' of
                       None \<Rightarrow> (m1, Inl (KeyError ''answer''))
                     | Some old_answer \<Rightarrow>
                         (case map_of qa ''category'' of
                            None \<Rightarrow> (m1, Inl (KeyError ''category''))
                          | Some old_category \<Rightarrow>
                              (let qa' = AList.update ''updated_date'' now
                                           (set_if ''confidence'' new_confidence
                                             (set_if ''category'' new_category
                                               (set_if ''context'' new_context
                                                 (set_if ''answer'' new_answer qa))));
                                   h = (heap m1)[r := qa'];
                                   m2 = m1\<lparr>heap := h\<rparr>
                               in if truthy new_category \<and> the new_category \<noteq> old_category then
                                    (case map_of (categories d) old_category of
                                       None \<Rightarrow> (m2, Inl (KeyError old_category))
                                     | Some bucket \<Rightarrow>
                                         (case bucket_without h (the (map_of qa' ''question'')) bucket of
                                            Inl e \<Rightarrow> (m2, Inl e)
                                          | Inr bucket' \<Rightarrow>
                                              (m2\<lparr>qa_data := Some
                                                    (d\<lparr>categories :=
                                                         bucket_append (the new_category) r
                                                           (AList.update old_category bucket'
                                                              (categories d))\<rparr>)\<rparr>,
                                               Inr (Some r))))
                                  else (m2, Inr (Some r))))))))"

definition delete_qa_pair :: "fs \<Rightarrow> string \<Rightarrow> manager \<Rightarrow> manager \<times> (exn + bool)" where
  "delete_qa_pair files question m =
     (case ensure_loaded files m of
        (m1, Inl e) \<Rightarrow> (m1, Inl e)
      | (m1, Inr u) \<Rightarrow>
          (case qa_data m1 of
             None \<Rightarrow> (m1, Inl TypeError)
           | Some d \<Rightarrow>
               (case find_question (heap m1) (normalized question) (qa_pairs d) 0 of
                  Inl e \<Rightarrow> (m1, Inl e)
                | Inr None \<Rightarrow> (m1, Inr False)
                | Inr (Some (i, r)) \<Rightarrow>
                    (case map_of (heap m1 ! r) ''category'' of
                       None \<Rightarrow> (m1, Inl (KeyError ''category''))
                     | Some category \<Rightarrow>
                         (let md = metadata d;
                              d1 = d\<lparr>qa_pairs := take i (qa_pairs d) @ drop (Suc i) (qa_pairs d),
                                     metadata := md\<lparr>total_qa_pairs := total_qa_pairs md - 1\<rparr>\<rparr>;
                              m2 = m1\<lparr>qa_data := Some d1\<rparr>
                          in case map_of (categories d1) category of
                               None \<Rightarrow> (m2, Inl (KeyError category))
                             | Some bucket \<Rightarrow>
                                 (case bucket_without (heap m1)
                                         (the (map_of (heap m1 ! r) ''question'')) bucket of
                                    Inl e \<Rightarrow> (m2, Inl e)
                                  | Inr bucket' \<Rightarrow>
                                      (m1\<lparr>qa_data := Some
                                            (d1\<lparr>categories :=
                                                  AList.update category bucket' (categories d1)\<rparr>)\<rparr>,
                                       Inr True)))))))"

subsection \<open>Validation\<close>

record issues =
  missing_fields :: "(ref \<times> string) list"
  duplicate_questions :: "ref list"
  empty_answers :: "ref list"
  low_confidence :: "ref list"
  orphaned_categories :: "string list"

text \<open>\<open>field not in qa_pair or not qa_pair[field]\<close>, for each required field in turn.\<close>

definition missing_of :: "qa_pair \<Rightarrow> string list" where
  "missing_of qa =
     filter (\<lambda>field. case map_of qa field of None \<Rightarrow> True | Some v \<Rightarrow> v = [])
       [''question'', ''answer'', ''context'', ''category'', ''source'']"

text \<open>
  The loop over \<open>qa_pairs\<close>. \<open>issues\<close> and \<open>seen_questions\<close> are local, so an
  exception loses them.
\<close>

fun validate_loop :: "heap \<Rightarrow> ref list \<Rightarrow> issues \<Rightarrow> string set \<Rightarrow> exn + issues" where
  "validate_loop h [] iss seen_questions = Inr iss"
| "validate_loop h (r # rs) iss seen_questions =
     (let qa = h ! r;
          iss1 = iss\<lparr>missing_fields := missing_fields iss @ map (Pair r) (missing_of qa)\<rparr>
      in case map_of qa ''question'' of
           None \<Rightarrow> Inl (KeyError ''question'')
         | Some q \<Rightarrow>
             (let question_key = normalized q;
                  iss2 = (if question_key \<in> seen_questions
                          then iss1\<lparr>duplicate_questions := duplicate_questions iss1 @ [r]\<rparr>
                          else iss1);
                  seen = (if question_key \<in> seen_questions then seen_questions
                          else insert question_key seen_questions);
                  iss3 = (if strip (get_default qa ''answer'' []) = []
                          then iss2\<lparr>empty_answers := empty_answers iss2 @ [r]\<rparr>
                          else iss2);
                  iss4 = (if map_of qa ''confidence'' = Some ''low''
                          then iss3\<lparr>low_confidence := low_confidence iss3 @ [r]\<rparr>
                          else iss3)
              in validate_loop h rs iss4 seen))"

definition validate_qa_pairs :: "fs \<Rightarrow> manager \<Rightarrow> manager \<times> (exn + issues)" where
  "validate_qa_pairs files m =
     (case ensure_loaded files m of
        (m1, Inl e) \<Rightarrow> (m1, Inl e)
      | (m1, Inr u) \<Rightarrow>
          (case qa_data m1 of
             None \<Rightarrow> (m1, Inl TypeError)
           | Some d \<Rightarrow>
               (case validate_loop (heap m1) (qa_pairs d)
                       \<lparr>missing_fields = [], duplicate_questions = [], empty_answers = [],
                        low_confidence = [], orphaned_categories = []\<rparr> {} of
                  Inl e \<Rightarrow> (m1, Inl e)
                | Inr iss \<Rightarrow>
                    (m1,
                     Inr (iss\<lparr>orphaned_categories :=
                                map fst (filter (\<lambda>(c, rs). rs = []) (categories d))\<rparr>)))))"

subsection \<open>Import\<close>

text \<open>
  The file named by \<open>import_file\<close>: absent, not JSON, or a JSON object, of which only
  the member \<open>qa_pairs\<close> is read (\<open>None\<close> when the object has no such member).
\<close>

datatype import_file = No_such_file | Not_json | Import_json "qa_pair list option"

text \<open>
  One round of the loop of \<open>import_category\<close>. The entry is in the main list and counted
  before \<open>qa_pair['category']\<close> is read, and in its bucket before \<open>qa_pair['source']\<close>
  is read.
\<close>

definition import_one :: "string option \<Rightarrow> qa_pair \<Rightarrow> heap \<times> qa_data \<Rightarrow> (heap \<times> qa_data) \<times> (exn + unit)" where
  "import_one category qa0 s =
     (case s of (h, d) \<Rightarrow>
        (let qa_pair = set_if ''category'' category qa0;
             r = length h;
             h1 = h @ [qa_pair];
             md = metadata d;
             d1 = d\<lparr>qa_pairs := qa_pairs d @ [r],
                    metadata := md\<lparr>total_qa_pairs := total_qa_pairs md + 1\<rparr>\<rparr>
         in case map_of qa_pair ''category'' of
              None \<Rightarrow> ((h1, d1), Inl (KeyError ''category''))
            | Some cat \<Rightarrow>
                (let md1 = metadata d1;
                     d2 = d1\<lparr>categories := bucket_append cat r (categories d1),
                             metadata := md1\<lparr>md_categories := append_new cat (md_categories md1)\<rparr>\<rparr>
                 in case map_of qa_pair ''source'' of
                      None \<Rightarrow> ((h1, d2), Inl (KeyError ''source''))
                    | Some src \<Rightarrow>
                        (let md2 = metadata d2
                         in ((h1, d2\<lparr>metadata := md2\<lparr>md_sources := append_new src (md_sources md2)\<rparr>\<rparr>),
                             Inr ())))))"

fun import_loop :: "string option \<Rightarrow> qa_pair list \<Rightarrow> heap \<times> qa_data \<Rightarrow> (heap \<times> qa_data) \<times> (exn + unit)" where
  "import_loop category [] s = (s, Inr ())"
| "import_loop category (qa # qas) s =
     (case import_one category qa s of
        (s1, Inl e) \<Rightarrow> (s1, Inl e)
      | (s1, Inr u) \<Rightarrow> import_loop category qas s1)"

definition import_category :: "fs \<Rightarrow> import_file \<Rightarrow> string option \<Rightarrow> manager \<Rightarrow> manager \<times> (exn + unit)" where
  "import_category files import_data category m =
     (case import_data of
        No_such_file \<Rightarrow> (m, Inr ())
      | Not_json \<Rightarrow> (m, Inl JSONDecodeError)
      | Import_json member \<Rightarrow>
          (case ensure_loaded files m of
             (m1, Inl e) \<Rightarrow> (m1, Inl e)
           | (m1, Inr u) \<Rightarrow>
               (case qa_data m1 of
                  None \<Rightarrow>
                    (case member of
                       None \<Rightarrow> (m1, Inr ())
                     | Some [] \<Rightarrow> (m1, Inr ())
                     | Some (qa # qas) \<Rightarrow> (m1, Inl TypeError))
                | Some d \<Rightarrow>
                    (case import_loop category (case member of None \<Rightarrow> [] | Some qas \<Rightarrow> qas)
                            (heap m1, d) of
                       ((h, d'), res) \<Rightarrow> (m1\<lparr>heap := h, qa_data := Some d'\<rparr>, res)))))"

section \<open>Example inputs\<close>

definition roth_doc :: document where
  "roth_doc =
     \<lparr>page_content = ''Context: Roth IRA basics'' @ [CHR 0x0A] @ ''Question: What is a Roth IRA?''
        @ [CHR 0x0A] @ ''Answer: An account funded with after-tax money.'',
      doc_metadata = [(''category'', ''roth_ira_basics''), (''source'', ''Manual'')]\<rparr>"

definition passage_doc :: document where
  "passage_doc =
     \<lparr>page_content = ''Roth IRA contributions are made after tax.'',
      doc_metadata = [(''title'', ''Roth IRA''), (''url'', ''wiki/Roth_IRA'')]\<rparr>"

definition low_score_store :: vector_store where
  "low_score_store q k = Inr [(roth_doc, 0.2)]"

definition high_score_store :: vector_store where
  "high_score_store q k = Inr [(roth_doc, 0.9)]"

definition passage_store :: vector_store where
  "passage_store q k = Inr [(passage_doc, 0.4)]"

definition failing_store :: vector_store where
  "failing_store q k = Inl (CollaboratorError ''index unavailable'')"

definition fixed_llm :: "string \<Rightarrow> exn + string" where
  "fixed_llm prompt = Inr ''generated text''"

definition failing_llm :: "string \<Rightarrow> exn + string" where
  "failing_llm prompt = Inl (CollaboratorError ''generation failed'')"

definition low_score_pipeline :: pipeline where
  "low_score_pipeline =
     \<lparr>qa_vector_store = Some low_score_store, doc_vector_store = Some passage_store, llm = fixed_llm\<rparr>"

definition exact_match_store :: vector_store where
  "exact_match_store q k = Inr [(roth_doc, 0)]"

definition exact_match_pipeline :: pipeline where
  "exact_match_pipeline =
     \<lparr>qa_vector_store = Some exact_match_store, doc_vector_store = None, llm = fixed_llm\<rparr>"

definition failing_stores_pipeline :: pipeline where
  "failing_stores_pipeline =
     \<lparr>qa_vector_store = Some failing_store, doc_vector_store = Some failing_store, llm = fixed_llm\<rparr>"


definition failing_llm_pipeline :: pipeline where
  "failing_llm_pipeline =
     \<lparr>qa_vector_store = Some high_score_store, doc_vector_store = Some passage_store, llm = failing_llm\<rparr>"

definition empty_store :: qa_data where
  "empty_store =
     \<lparr>metadata = \<lparr>total_qa_pairs = 0, md_categories = [], md_category_counts = [], md_sources = []\<rparr>,
      qa_pairs = [], categories = []\<rparr>"

definition fresh_manager :: manager where
  "fresh_manager = \<lparr>qa_data_file = ''comprehensive_qa_data.json'', qa_data = Some empty_store, heap = []\<rparr>"

definition roth_entry :: qa_pair where
  "roth_entry =
     [(''question'', ''What is a Roth IRA?''), (''answer'', ''An account funded with after-tax money.''),
      (''context'', ''Roth IRA basics''), (''source'', ''Manual''), (''doc_id'', ''manual''),
      (''category'', ''roth_ira_basics''), (''confidence'', ''high''),
      (''added_date'', ''2024-01-01T00:00:00'')]"

definition roth_store :: qa_data where
  "roth_store =
     \<lparr>metadata = \<lparr>total_qa_pairs = 1, md_categories = [''roth_ira_basics''], md_category_counts = [],
                  md_sources = [''Manual'']\<rparr>,
      qa_pairs = [0], categories = [(''roth_ira_basics'', [0])]\<rparr>"

definition roth_manager :: manager where
  "roth_manager =
     \<lparr>qa_data_file = ''comprehensive_qa_data.json'', qa_data = Some roth_store, heap = [roth_entry]\<rparr>"

definition roth_again :: qa_pair where
  "roth_again =
     [(''question'', ''  what is a ROTH IRA? ''), (''answer'', ''Another answer.''),
      (''context'', ''Roth IRA basics''), (''source'', ''Manual''), (''doc_id'', ''manual''),
      (''category'', ''roth_ira_basics''), (''confidence'', ''high''),
      (''added_date'', ''2024-01-02T00:00:00'')]"

definition imported_roth :: qa_pair where
  "imported_roth =
     [(''question'', ''what is a roth ira?''), (''answer'', ''Imported answer.''),
      (''context'', ''Import''), (''source'', ''Import''), (''doc_id'', ''doc1''),
      (''category'', ''imported''), (''confidence'', ''medium'')]"

definition no_question_entry :: qa_pair where
  "no_question_entry =
     [(''answer'', ''An account funded with after-tax money.''), (''context'', ''Roth IRA basics''),
      (''source'', ''Manual''), (''doc_id'', ''manual''), (''category'', ''roth_ira_basics''),
      (''confidence'', ''high'')]"

definition no_question_manager :: manager where
  "no_question_manager =
     \<lparr>qa_data_file = ''comprehensive_qa_data.json'', qa_data = Some roth_store,
      heap = [no_question_entry]\<rparr>"

definition roth_json :: qa_json where
  "roth_json =
     \<lparr>json_metadata = \<lparr>total_qa_pairs = 1, md_categories = [''roth_ira_basics''],
                       md_category_counts = [], md_sources = [''Manual'']\<rparr>,
      json_qa_pairs = [roth_entry], json_categories = [(''roth_ira_basics'', [roth_entry])]\<rparr>"

definition stale_json :: qa_json where
  "stale_json =
     \<lparr>json_metadata = \<lparr>total_qa_pairs = 1, md_categories = [''roth_ira_basics''],
                       md_category_counts = [], md_sources = [''Manual'']\<rparr>,
      json_qa_pairs = [roth_entry], json_categories = [(''old_category'', [])]\<rparr>"

definition unloaded_manager :: manager where
  "unloaded_manager = \<lparr>qa_data_file = ''comprehensive_qa_data.json'', qa_data = None, heap = []\<rparr>"

definition all_written :: io where
  "all_written = \<lparr>read_fails = False, backup_write = Written, primary_write = Written\<rparr>"

definition dump_interrupted :: io where
  "dump_interrupted = \<lparr>read_fails = False, backup_write = Written, primary_write = Dump_failed\<rparr>"

definition backup_refused :: io where
  "backup_refused = \<lparr>read_fails = False, backup_write = Open_failed, primary_write = Written\<rparr>"

definition disk_with :: "qa_json \<Rightarrow> fs" where
  "disk_with j = [''comprehensive_qa_data.json'' \<mapsto> Store_text (Some j)]"

section \<open>Properties of the pipeline\<close>

lemma parse_qa_score: "qa_similarity_score (parse_qa (doc, s)) = s"
  by (simp add: parse_qa_def split: prod.splits)

lemma tier3_sources:
  "tier3 p now question tr = (tr', Inr env) \<Longrightarrow>
     env_sources_used env = [] \<and> env_method env = ''base_llm''"
  by (auto simp: tier3_def get_base_llm_answer_def split: sum.splits)

lemma tier2_sources:
  "tier2 p now question h tr = (tr', Inr env) \<Longrightarrow>
     (env_sources_used env = [] \<longleftrightarrow> env_method env = ''base_llm'')"
  by (auto simp: tier2_def Let_def split: if_splits prod.splits sum.splits dest: tier3_sources)




text \<open>
  C1: a curated result whose score is below the threshold is to be returned as it is, with
  no call of the language model. The code tests \<open>similarity_score > 0.7\<close> on a score
  that is a distance. For the stored question itself, which the curated search returns with
  distance 0, the entry is passed over: the query ends in tier 3 with one call of the
  language model, method \<open>base_llm\<close>, confidence \<open>low\<close> and no source.
\<close>

theorem curated_exact_match_not_accepted:
  "snd (search_qa_data exact_match_pipeline ''What is a Roth IRA?'' 2) = [parse_qa (roth_doc, 0)]
   \<and> qa_question (parse_qa (roth_doc, 0)) = ''What is a Roth IRA?''
   \<and> qa_answer (parse_qa (roth_doc, 0)) = ''An account funded with after-tax money.''
   \<and> qa_similarity_score (parse_qa (roth_doc, 0)) = 0
   \<and> ask_question exact_match_pipeline ''2024-01-01T00:00:00'' ''What is a Roth IRA?'' True =
       ([Qa_search ''What is a Roth IRA?'' 2, Llm_call (base_prompt ''What is a Roth IRA?'')],
        Inr \<lparr>env_question = ''What is a Roth IRA?'', env_timestamp = ''2024-01-01T00:00:00'',
             env_sources_used = [], env_answer = ''generated text'', env_confidence = ''low'',
             env_method = ''base_llm''\<rparr>)"
proof -
  have p: "parse_qa (roth_doc, 0) =
     \<lparr>qa_question = ''What is a Roth IRA?'', qa_answer = ''An account funded with after-tax money.'',
      qa_context = ''Roth IRA basics'', qa_category = ''roth_ira_basics'', qa_source = ''Manual'',
      qa_similarity_score = 0, qa_content = page_content roth_doc\<rparr>"
    by (simp add: parse_qa_def roth_doc_def startswith_def strip_def is_space_def get_default_def)
  have s: "snd (search_qa_data exact_match_pipeline ''What is a Roth IRA?'' 2) = [parse_qa (roth_doc, 0)]"
    by (simp add: search_qa_data_def exact_match_pipeline_def exact_match_store_def)
  have a: "ask_question exact_match_pipeline ''2024-01-01T00:00:00'' ''What is a Roth IRA?'' True =
       ([Qa_search ''What is a Roth IRA?'' 2, Llm_call (base_prompt ''What is a Roth IRA?'')],
        Inr \<lparr>env_question = ''What is a Roth IRA?'', env_timestamp = ''2024-01-01T00:00:00'',
             env_sources_used = [], env_answer = ''generated text'', env_confidence = ''low'',
             env_method = ''base_llm''\<rparr>)"
    by (simp add: ask_question_def tier2_def tier3_def search_qa_data_def get_base_llm_answer_def
          exact_match_pipeline_def exact_match_store_def fixed_llm_def parse_qa_score)
  show ?thesis
    using s a by (simp add: p)
qed



text \<open>
  C9: whenever \<open>ask_question\<close> returns an envelope, its sources are empty exactly when its
  method is \<open>base_llm\<close>.
\<close>

theorem sources_empty_iff_base_llm:
  "ask_question p now question use_hybrid = (tr, Inr env) \<Longrightarrow>
     (env_sources_used env = [] \<longleftrightarrow> env_method env = ''base_llm'')"
  by (auto simp: ask_question_def split: if_splits prod.splits list.splits dest: tier2_sources)

theorem sources_empty_iff_base_llm_witness:
  "ask_question low_score_pipeline ''t'' ''q'' True =
     ([Qa_search ''q'' 2, Doc_search ''q'' 3,
       Llm_call (document_prompt (context_part (chunk_of (passage_doc, 0.4))) ''q'')],
      Inr \<lparr>env_question = ''q'', env_timestamp = ''t'',
           env_sources_used = [Document_chunk_source ''Roth IRA'' ''wiki/Roth_IRA'' 0.4],
           env_answer = ''generated text'', env_confidence = ''medium'',
           env_method = ''document_search''\<rparr>)
   \<and> ([Document_chunk_source ''Roth IRA'' ''wiki/Roth_IRA'' 0.4] = [] \<longleftrightarrow>
        ''document_search'' = ''base_llm'')"
proof -
  have a: "ask_question low_score_pipeline ''t'' ''q'' True =
     ([Qa_search ''q'' 2, Doc_search ''q'' 3,
       Llm_call (document_prompt (context_part (chunk_of (passage_doc, 0.4))) ''q'')],
      Inr \<lparr>env_question = ''q'', env_timestamp = ''t'',
           env_sources_used = [Document_chunk_source ''Roth IRA'' ''wiki/Roth_IRA'' 0.4],
           env_answer = ''generated text'', env_confidence = ''medium'',
           env_method = ''document_search''\<rparr>)"
    by (simp add: ask_question_def tier2_def search_qa_data_def search_documents_def
        low_score_pipeline_def low_score_store_def passage_store_def fixed_llm_def
        parse_qa_score chunk_of_def chunk_source_def passage_doc_def get_default_def Let_def)
  show ?thesis
    using a sources_empty_iff_base_llm [OF a] by simp
qed

text \<open>
  C10, as the code has it: with \<open>use_hybrid = False\<close> no store is searched, the one outside
  call is the ungrounded prompt, an answer of the language model comes back in an envelope
  with method \<open>base_llm\<close>, confidence \<open>low\<close> and no sources, and an exception of the
  language model ends the call.
\<close>

theorem no_hybrid_is_base_llm:
  "ask_question p now question False =
     ([Llm_call (base_prompt question)],
      (case llm p (base_prompt question) of
         Inl e \<Rightarrow> Inl e
       | Inr a \<Rightarrow>
           Inr \<lparr>env_question = question, env_timestamp = now, env_sources_used = [],
                env_answer = a, env_confidence = ''low'', env_method = ''base_llm''\<rparr>))"
  by (simp add: ask_question_def tier2_def tier3_def get_base_llm_answer_def split: sum.splits)

theorem no_hybrid_always_returns_counterexample:
  "ask_question failing_llm_pipeline ''2024-01-01T00:00:00'' ''What is a Roth IRA?'' False =
     ([Llm_call (base_prompt ''What is a Roth IRA?'')], Inl (CollaboratorError ''generation failed''))"
  by (simp add: ask_question_def tier2_def tier3_def get_base_llm_answer_def
        failing_llm_pipeline_def failing_llm_def)

section \<open>Properties of the content manager\<close>

lemma ensure_loaded_Some: "qa_data m = Some d \<Longrightarrow> ensure_loaded files m = (m, Inr ())"
  by (simp add: ensure_loaded_def)

lemma map_entry_keys: "map fst (AList.map_entry k f xs) = map fst xs"
  by (induction xs) auto

lemma bucket_append_keys:
  "map fst (bucket_append cat r cats) = map fst cats @ (if map_of cats cat = None then [cat] else [])"
  by (simp add: bucket_append_def map_entry_keys)

lemma bucket_append_lookup:
  "map_of (bucket_append cat r cats) cat =
     Some ((case map_of cats cat of None \<Rightarrow> [] | Some rs \<Rightarrow> rs) @ [r])"
  by (auto simp: bucket_append_def map_of_map_entry split: option.splits)

lemma update_present_keys: "map_of al k = Some v \<Longrightarrow> map fst (AList.update k v' al) = map fst al"
  by (induction al) (auto split: if_splits)

text \<open>
  C2, as the code has it: \<open>add_qa_pair\<close> makes no check for an existing question. On a
  loaded store it always succeeds: the new entry is put at the end of the main list and at
  the end of its category bucket, and the count goes up by one.
\<close>

theorem add_always_appends:
  assumes "qa_data m = Some d"
  shows "\<exists>m' d'.
     add_qa_pair files now question answer ctx category source confidence m
       = (m', Inr (length (heap m)))
     \<and> qa_data m' = Some d'
     \<and> heap m' = heap m @
         [[(''question'', question), (''answer'', answer), (''context'', ctx),
           (''source'', source), (''doc_id'', ''manual''), (''category'', category),
           (''confidence'', confidence), (''added_date'', now)]]
     \<and> qa_pairs d' = qa_pairs d @ [length (heap m)]
     \<and> total_qa_pairs (metadata d') = total_qa_pairs (metadata d) + 1
     \<and> map_of (categories d') category =
         Some ((case map_of (categories d) category of None \<Rightarrow> [] | Some rs \<Rightarrow> rs)
               @ [length (heap m)])"
  using assms
  by (simp add: add_qa_pair_def ensure_loaded_Some Let_def bucket_append_lookup)

theorem add_always_appends_witness:
  "add_qa_pair Map.empty ''2024-01-02T00:00:00'' ''  what is a ROTH IRA? '' ''Another answer.''
       ''Roth IRA basics'' ''roth_ira_basics'' ''Manual'' ''high'' roth_manager
     = (roth_manager\<lparr>heap := [roth_entry, roth_again],
          qa_data := Some
            \<lparr>metadata = \<lparr>total_qa_pairs = 2, md_categories = [''roth_ira_basics''],
                         md_category_counts = [], md_sources = [''Manual'']\<rparr>,
             qa_pairs = [0, 1], categories = [(''roth_ira_basics'', [0, 1])]\<rparr>\<rparr>,
        Inr 1)"
proof -
  have a: "qa_data roth_manager = Some roth_store"
    by (simp add: roth_manager_def)
  obtain m' d' where
    r: "add_qa_pair Map.empty ''2024-01-02T00:00:00'' ''  what is a ROTH IRA? '' ''Another answer.''
          ''Roth IRA basics'' ''roth_ira_basics'' ''Manual'' ''high'' roth_manager
        = (m', Inr (length (heap roth_manager)))"
    using add_always_appends [OF a] by blast
  have "length (heap roth_manager) = 1"
    by (simp add: roth_manager_def)
  with r show ?thesis
    by (simp add: add_qa_pair_def ensure_loaded_def roth_manager_def roth_store_def
          roth_again_def bucket_append_def append_new_def Let_def)
qed

theorem add_duplicate_counterexample:
  "add_qa_pair Map.empty ''2024-01-01T00:00:00'' ''What is a Roth IRA?''
       ''An account funded with after-tax money.'' ''Roth IRA basics'' ''roth_ira_basics''
       ''Manual'' ''high'' fresh_manager
     = (roth_manager, Inr 0)
   \<and> normalized ''  what is a ROTH IRA? '' = normalized ''What is a Roth IRA?''
   \<and> add_qa_pair Map.empty ''2024-01-02T00:00:00'' ''  what is a ROTH IRA? '' ''Another answer.''
       ''Roth IRA basics'' ''roth_ira_basics'' ''Manual'' ''high'' roth_manager
     = (roth_manager\<lparr>heap := [roth_entry, roth_again],
          qa_data := Some
            \<lparr>metadata = \<lparr>total_qa_pairs = 2, md_categories = [''roth_ira_basics''],
                         md_category_counts = [], md_sources = [''Manual'']\<rparr>,
             qa_pairs = [0, 1], categories = [(''roth_ira_basics'', [0, 1])]\<rparr>\<rparr>,
        Inr 1)"
proof -
  have "normalized ''  what is a ROTH IRA? '' = normalized ''What is a Roth IRA?''"
    by code_simp
  then show ?thesis
    by (simp add: add_qa_pair_def ensure_loaded_def roth_manager_def roth_store_def fresh_manager_def
          empty_store_def roth_entry_def roth_again_def bucket_append_def append_new_def Let_def)
qed

text \<open>
  C5, as the code has it: \<open>delete_qa_pair\<close> and \<open>update_qa_pair\<close> never remove a
  bucket. Whatever \<open>delete_qa_pair\<close> returns, the keys of \<open>categories\<close> are the keys
  before, in the same order. Whatever \<open>update_qa_pair\<close> returns, they are the keys before,
  or the keys before followed by the new category when that category had no bucket.
\<close>

theorem delete_update_keep_bucket_keys:
  "(qa_data m = Some d \<and> delete_qa_pair files question m = (m', res) \<longrightarrow>
      (\<exists>d'. qa_data m' = Some d' \<and> map fst (categories d') = map fst (categories d)))
   \<and> (qa_data m = Some d
        \<and> update_qa_pair files now question new_answer new_context new_category new_confidence m
            = (m'', res') \<longrightarrow>
      (\<exists>d''. qa_data m'' = Some d''
         \<and> (map fst (categories d'') = map fst (categories d)
              \<or> (\<exists>c. new_category = Some c \<and> map_of (categories d) c = None
                    \<and> map fst (categories d'') = map fst (categories d) @ [c]))))"
proof (intro conjI impI)
  assume "qa_data m = Some d \<and> delete_qa_pair files question m = (m', res)"
  then show "\<exists>d'. qa_data m' = Some d' \<and> map fst (categories d') = map fst (categories d)"
    by (auto simp: delete_qa_pair_def ensure_loaded_Some Let_def update_present_keys
          split: sum.splits option.splits prod.splits)
next
  assume "qa_data m = Some d
        \<and> update_qa_pair files now question new_answer new_context new_category new_confidence m
            = (m'', res')"
  then show "\<exists>d''. qa_data m'' = Some d''
         \<and> (map fst (categories d'') = map fst (categories d)
              \<or> (\<exists>c. new_category = Some c \<and> map_of (categories d) c = None
                    \<and> map fst (categories d'') = map fst (categories d) @ [c]))"
    by (auto simp: update_qa_pair_def ensure_loaded_Some Let_def update_present_keys
          bucket_append_keys truthy_def AList.update_conv'
          split: sum.splits option.splits prod.splits if_splits)
qed

theorem delete_update_keep_bucket_keys_witness:
  "delete_qa_pair Map.empty '' what is a roth ira?'' roth_manager
     = (roth_manager\<lparr>qa_data := Some
          \<lparr>metadata = \<lparr>total_qa_pairs = 0, md_categories = [''roth_ira_basics''],
                       md_category_counts = [], md_sources = [''Manual'']\<rparr>,
           qa_pairs = [], categories = [(''roth_ira_basics'', [])]\<rparr>\<rparr>,
        Inr True)
   \<and> (\<exists>d'. qa_data (fst (delete_qa_pair Map.empty '' what is a roth ira?'' roth_manager)) = Some d'
         \<and> map fst (categories d') = [''roth_ira_basics''])
   \<and> (\<exists>d''.
         qa_data (fst (update_qa_pair Map.empty ''2024-02-01T00:00:00'' '' what is a roth ira?''
                         None None (Some ''taxes'') None roth_manager)) = Some d''
         \<and> (map fst (categories d'') = [''roth_ira_basics'']
              \<or> map_of (categories roth_store) ''taxes'' = None
                 \<and> map fst (categories d'') = [''roth_ira_basics'', ''taxes'']))"
proof -
  have n: "normalized '' what is a roth ira?'' = normalized ''What is a Roth IRA?''"
    by code_simp
  have a: "delete_qa_pair Map.empty '' what is a roth ira?'' roth_manager
     = (roth_manager\<lparr>qa_data := Some
          \<lparr>metadata = \<lparr>total_qa_pairs = 0, md_categories = [''roth_ira_basics''],
                       md_category_counts = [], md_sources = [''Manual'']\<rparr>,
           qa_pairs = [], categories = [(''roth_ira_basics'', [])]\<rparr>\<rparr>,
        Inr True)"
    using n
    by (simp add: delete_qa_pair_def ensure_loaded_def roth_manager_def roth_store_def
          roth_entry_def Let_def)
  have b: "qa_data roth_manager = Some roth_store"
    by (simp add: roth_manager_def)
  have k: "map fst (categories roth_store) = [''roth_ira_basics'']"
    by (simp add: roth_store_def)
  show ?thesis
    using a b k
      delete_update_keep_bucket_keys [where m = roth_manager and d = roth_store
        and files = Map.empty and question = "'' what is a roth ira?''"
        and m' = "fst (delete_qa_pair Map.empty '' what is a roth ira?'' roth_manager)"
        and res = "snd (delete_qa_pair Map.empty '' what is a roth ira?'' roth_manager)"
        and now = "''2024-02-01T00:00:00''" and new_answer = None and new_context = None
        and new_category = "Some ''taxes''" and new_confidence = None
        and m'' = "fst (update_qa_pair Map.empty ''2024-02-01T00:00:00'' '' what is a roth ira?''
                None None (Some ''taxes'') None roth_manager)"
        and res' = "snd (update_qa_pair Map.empty ''2024-02-01T00:00:00'' '' what is a roth ira?''
                None None (Some ''taxes'') None roth_manager)"]
    by simp
qed

theorem empty_bucket_kept_counterexample:
  "add_qa_pair Map.empty ''2024-01-01T00:00:00'' ''What is a Roth IRA?''
       ''An account funded with after-tax money.'' ''Roth IRA basics'' ''roth_ira_basics''
       ''Manual'' ''high'' fresh_manager
     = (roth_manager, Inr 0)
   \<and> delete_qa_pair Map.empty ''What is a Roth IRA?'' roth_manager
     = (roth_manager\<lparr>qa_data := Some
          \<lparr>metadata = \<lparr>total_qa_pairs = 0, md_categories = [''roth_ira_basics''],
                       md_category_counts = [], md_sources = [''Manual'']\<rparr>,
           qa_pairs = [], categories = [(''roth_ira_basics'', [])]\<rparr>\<rparr>,
        Inr True)
   \<and> update_qa_pair Map.empty ''2024-02-01T00:00:00'' ''What is a Roth IRA?''
       None None (Some ''taxes'') None roth_manager
     = (roth_manager\<lparr>heap :=
            [AList.update ''updated_date'' ''2024-02-01T00:00:00''
               (AList.update ''category'' ''taxes'' roth_entry)],
          qa_data := Some
            \<lparr>metadata = \<lparr>total_qa_pairs = 1, md_categories = [''roth_ira_basics''],
                         md_category_counts = [], md_sources = [''Manual'']\<rparr>,
             qa_pairs = [0], categories = [(''roth_ira_basics'', []), (''taxes'', [0])]\<rparr>\<rparr>,
        Inr (Some 0))"
  by (simp add: add_qa_pair_def delete_qa_pair_def update_qa_pair_def ensure_loaded_def
        roth_manager_def roth_store_def fresh_manager_def empty_store_def roth_entry_def
        bucket_append_def append_new_def set_if_def truthy_def Let_def)

lemma validate_frame:
  "qa_data m = Some d \<Longrightarrow> fst (validate_qa_pairs files m) = m"
  by (simp add: validate_qa_pairs_def ensure_loaded_Some split: sum.splits)

text \<open>
  C7: on a store with an entry that has no \<open>question\<close> key, \<open>validate_qa_pairs\<close> records
  the missing field and then reads \<open>qa_pair['question']\<close>, which raises.
\<close>

theorem validate_raises_without_question:
  "validate_qa_pairs Map.empty no_question_manager = (no_question_manager, Inl (KeyError ''question''))"
  by (simp add: validate_qa_pairs_def ensure_loaded_def no_question_manager_def roth_store_def
        no_question_entry_def Let_def)

lemma bucket_append_other:
  "c \<noteq> cat \<Longrightarrow> map_of (bucket_append cat r cats) c = map_of cats c"
  by (auto simp: bucket_append_def map_of_map_entry map_add_def split: option.splits)

lemma import_one_bucket:
  assumes "map_of (set_if ''category'' category qa) ''category'' = Some cat"
    and "map_of (set_if ''category'' category qa) ''source'' = Some src"
  shows "\<exists>d'. import_one category qa (h, d) = ((h @ [set_if ''category'' category qa], d'), Inr ())
     \<and> qa_pairs d' = qa_pairs d @ [length h]
     \<and> total_qa_pairs (metadata d') = total_qa_pairs (metadata d) + 1
     \<and> categories d' = bucket_append cat (length h) (categories d)"
  using assms by (simp add: import_one_def Let_def)

lemma import_loop_buckets:
  assumes "\<forall>qa \<in> set batch.
      map_of (set_if ''category'' category qa) ''category'' \<noteq> None
      \<and> map_of (set_if ''category'' category qa) ''source'' \<noteq> None"
  shows "\<exists>d'. import_loop category batch (h, d)
        = ((h @ map (set_if ''category'' category) batch, d'), Inr ())
     \<and> qa_pairs d' = qa_pairs d @ [length h ..< length h + length batch]
     \<and> total_qa_pairs (metadata d') = total_qa_pairs (metadata d) + int (length batch)
     \<and> (\<forall>c. map_of (categories d') c =
          (case map fst (filter (\<lambda>(r, qa). map_of qa ''category'' = Some c)
                  (zip [length h ..< length h + length batch]
                       (map (set_if ''category'' category) batch))) of
             [] \<Rightarrow> map_of (categories d) c
           | r # rs \<Rightarrow>
               Some ((case map_of (categories d) c of None \<Rightarrow> [] | Some old \<Rightarrow> old) @ r # rs)))"
  using assms
proof (induction batch arbitrary: h d)
  case Nil
  then show ?case by simp
next
  case (Cons qa batch)
  let ?qa1 = "set_if ''category'' category qa"
  from Cons.prems obtain cat src where
    k: "map_of ?qa1 ''category'' = Some cat" "map_of ?qa1 ''source'' = Some src"
    by auto
  from import_one_bucket [OF k] obtain d1 where
    one: "import_one category qa (h, d) = ((h @ [?qa1], d1), Inr ())"
      and p1: "qa_pairs d1 = qa_pairs d @ [length h]"
      and t1: "total_qa_pairs (metadata d1) = total_qa_pairs (metadata d) + 1"
      and c1: "categories d1 = bucket_append cat (length h) (categories d)"
    by blast
  from Cons.prems have rest: "\<forall>qa \<in> set batch.
      map_of (set_if ''category'' category qa) ''category'' \<noteq> None
      \<and> map_of (set_if ''category'' category qa) ''source'' \<noteq> None"
    by simp
  from Cons.IH [OF rest, of "h @ [?qa1]" d1] obtain d' where
    loop: "import_loop category batch (h @ [?qa1], d1)
        = (((h @ [?qa1]) @ map (set_if ''category'' category) batch, d'), Inr ())"
      and p2: "qa_pairs d' = qa_pairs d1 @
          [length (h @ [?qa1]) ..< length (h @ [?qa1]) + length batch]"
      and t2: "total_qa_pairs (metadata d') = total_qa_pairs (metadata d1) + int (length batch)"
      and c2: "\<forall>c. map_of (categories d') c =
          (case map fst (filter (\<lambda>(r, qa). map_of qa ''category'' = Some c)
                  (zip [length (h @ [?qa1]) ..< length (h @ [?qa1]) + length batch]
                       (map (set_if ''category'' category) batch))) of
             [] \<Rightarrow> map_of (categories d1) c
           | r # rs \<Rightarrow>
               Some ((case map_of (categories d1) c of None \<Rightarrow> [] | Some old \<Rightarrow> old) @ r # rs))"
    by blast
  have u: "[length h ..< length h + length (qa # batch)]
      = length h # [Suc (length h) ..< Suc (length h) + length batch]"
    by (simp add: upt_rec)
  have cats: "map_of (categories d') c =
          (case map fst (filter (\<lambda>(r, qa). map_of qa ''category'' = Some c)
                  (zip [length h ..< length h + length (qa # batch)]
                       (map (set_if ''category'' category) (qa # batch)))) of
             [] \<Rightarrow> map_of (categories d) c
           | r # rs \<Rightarrow>
               Some ((case map_of (categories d) c of None \<Rightarrow> [] | Some old \<Rightarrow> old) @ r # rs))"
    for c
  proof (cases "c = cat")
    case True
    then show ?thesis
      using c2 [rule_format, of c] c1 k(1)
      by (simp only: u) (simp add: bucket_append_lookup split: list.splits option.splits)
  next
    case False
    then show ?thesis
      using c2 [rule_format, of c] c1 k(1)
      by (simp only: u) (simp add: bucket_append_other split: list.splits option.splits)
  qed
  have main: "import_loop category (qa # batch) (h, d)
        = ((h @ map (set_if ''category'' category) (qa # batch), d'), Inr ())
     \<and> qa_pairs d' = qa_pairs d @ [length h ..< length h + length (qa # batch)]
     \<and> total_qa_pairs (metadata d') = total_qa_pairs (metadata d) + int (length (qa # batch))"
    using one loop p1 p2 t1 t2 u by simp
  show ?case
    using main cats by blast
qed

text \<open>
  C6, as the code has it: \<open>import_category\<close> does not go through \<open>add_qa_pair\<close> and
  compares no questions. When every entry of the batch has a category (its own or the
  override) and a source, every entry is appended in order to the main list, none is skipped,
  and the call reports nothing. The bucket of a category is afterwards the bucket before
  followed by the references of the batch entries of that category, in the order of the
  batch; a category without a batch entry is as before.
\<close>

theorem import_appends_every_entry:
  assumes "qa_data m = Some d"
    and "\<forall>qa \<in> set batch.
      map_of (set_if ''category'' category qa) ''category'' \<noteq> None
      \<and> map_of (set_if ''category'' category qa) ''source'' \<noteq> None"
  shows "\<exists>m' d'.
     import_category files (Import_json (Some batch)) category m = (m', Inr ())
     \<and> qa_data m' = Some d'
     \<and> heap m' = heap m @ map (set_if ''category'' category) batch
     \<and> qa_pairs d' = qa_pairs d @ [length (heap m) ..< length (heap m) + length batch]
     \<and> total_qa_pairs (metadata d') = total_qa_pairs (metadata d) + int (length batch)
     \<and> (\<forall>c. map_of (categories d') c =
          (case map fst (filter (\<lambda>(r, qa). map_of qa ''category'' = Some c)
                  (zip [length (heap m) ..< length (heap m) + length batch]
                       (map (set_if ''category'' category) batch))) of
             [] \<Rightarrow> map_of (categories d) c
           | r # rs \<Rightarrow>
               Some ((case map_of (categories d) c of None \<Rightarrow> [] | Some old \<Rightarrow> old) @ r # rs)))"
proof -
  from import_loop_buckets [OF assms(2), of "heap m" d] obtain d' where
    "import_loop category batch (heap m, d)
        = ((heap m @ map (set_if ''category'' category) batch, d'), Inr ())"
    "qa_pairs d' = qa_pairs d @ [length (heap m) ..< length (heap m) + length batch]"
    "total_qa_pairs (metadata d') = total_qa_pairs (metadata d) + int (length batch)"
    "\<forall>c. map_of (categories d') c =
          (case map fst (filter (\<lambda>(r, qa). map_of qa ''category'' = Some c)
                  (zip [length (heap m) ..< length (heap m) + length batch]
                       (map (set_if ''category'' category) batch))) of
             [] \<Rightarrow> map_of (categories d) c
           | r # rs \<Rightarrow>
               Some ((case map_of (categories d) c of None \<Rightarrow> [] | Some old \<Rightarrow> old) @ r # rs))"
    by blast
  then show ?thesis
    using assms(1) by (simp add: import_category_def ensure_loaded_Some)
qed

theorem import_appends_every_entry_witness:
  "map_of (set_if ''category'' None imported_roth) ''category'' = Some ''imported''
   \<and> map_of (set_if ''category'' None imported_roth) ''source'' = Some ''Import''
   \<and> (\<exists>m' d'.
     import_category Map.empty (Import_json (Some [imported_roth, imported_roth])) None roth_manager
       = (m', Inr ())
     \<and> qa_data m' = Some d'
     \<and> heap m' = [roth_entry, imported_roth, imported_roth]
     \<and> qa_pairs d' = [0, 1, 2]
     \<and> total_qa_pairs (metadata d') = 3
     \<and> map_of (categories d') ''imported'' = Some [1, 2]
     \<and> map_of (categories d') ''roth_ira_basics'' = Some [0])"
proof -
  have a: "qa_data roth_manager = Some roth_store"
    by (simp add: roth_manager_def)
  have b: "\<forall>qa \<in> set [imported_roth, imported_roth].
      map_of (set_if ''category'' None qa) ''category'' \<noteq> None
      \<and> map_of (set_if ''category'' None qa) ''source'' \<noteq> None"
    by (simp add: set_if_def truthy_def imported_roth_def)
  have c: "heap roth_manager @ map (set_if ''category'' None) [imported_roth, imported_roth]
      = [roth_entry, imported_roth, imported_roth]"
    by (simp add: roth_manager_def set_if_def truthy_def)
  have d: "qa_pairs roth_store @ [length (heap roth_manager) ..< length (heap roth_manager)
        + length [imported_roth, imported_roth]] = [0, 1, 2]"
    by (simp add: roth_manager_def roth_store_def upt_rec eval_nat_numeral)
  have e: "total_qa_pairs (metadata roth_store) + int (length [imported_roth, imported_roth]) = 3"
    by (simp add: roth_store_def)
  have f: "map_of (set_if ''category'' None imported_roth) ''category'' = Some ''imported''
      \<and> map_of (set_if ''category'' None imported_roth) ''source'' = Some ''Import''"
    by (simp add: set_if_def truthy_def imported_roth_def)
  have z: "zip [length (heap roth_manager) ..< length (heap roth_manager)
        + length [imported_roth, imported_roth]]
        (map (set_if ''category'' None) [imported_roth, imported_roth])
      = [(1, imported_roth), (2, imported_roth)]"
    by (simp add: roth_manager_def set_if_def truthy_def upt_rec eval_nat_numeral)
  have g: "map_of imported_roth ''category'' = Some ''imported''"
    by (simp add: imported_roth_def)
  have old: "map_of (categories roth_store) ''imported'' = None
      \<and> map_of (categories roth_store) ''roth_ira_basics'' = Some [0]"
    by (simp add: roth_store_def)
  from import_appends_every_entry [OF a b, of Map.empty] obtain m' d' where
    r: "import_category Map.empty (Import_json (Some [imported_roth, imported_roth])) None roth_manager
          = (m', Inr ())"
       "qa_data m' = Some d'"
       "heap m' = heap roth_manager @ map (set_if ''category'' None) [imported_roth, imported_roth]"
       "qa_pairs d' = qa_pairs roth_store @ [length (heap roth_manager) ..< length (heap roth_manager)
          + length [imported_roth, imported_roth]]"
       "total_qa_pairs (metadata d') =
          total_qa_pairs (metadata roth_store) + int (length [imported_roth, imported_roth])"
    and cs: "\<forall>c. map_of (categories d') c =
          (case map fst (filter (\<lambda>(r, qa). map_of qa ''category'' = Some c)
                  (zip [length (heap roth_manager) ..< length (heap roth_manager)
                          + length [imported_roth, imported_roth]]
                       (map (set_if ''category'' None) [imported_roth, imported_roth]))) of
             [] \<Rightarrow> map_of (categories roth_store) c
           | r # rs \<Rightarrow>
               Some ((case map_of (categories roth_store) c of None \<Rightarrow> [] | Some old \<Rightarrow> old)
                     @ r # rs))"
    by blast
  have b1: "map_of (categories d') ''imported'' = Some [1, 2]"
    using cs [rule_format, of "''imported''"] old by (simp only: z) (simp add: g)
  have b2: "map_of (categories d') ''roth_ira_basics'' = Some [0]"
    using cs [rule_format, of "''roth_ira_basics''"] old by (simp only: z) (simp add: g)
  have "import_category Map.empty (Import_json (Some [imported_roth, imported_roth])) None roth_manager
       = (m', Inr ())
     \<and> qa_data m' = Some d'
     \<and> heap m' = [roth_entry, imported_roth, imported_roth]
     \<and> qa_pairs d' = [0, 1, 2]
     \<and> total_qa_pairs (metadata d') = 3
     \<and> map_of (categories d') ''imported'' = Some [1, 2]
     \<and> map_of (categories d') ''roth_ira_basics'' = Some [0]"
    using r b1 b2 by (simp only: c d e)
  then show ?thesis
    using f by blast
qed

theorem import_duplicate_counterexample:
  "normalized ''what is a roth ira?'' = normalized ''What is a Roth IRA?''
   \<and> import_category Map.empty (Import_json (Some [imported_roth, imported_roth])) None roth_manager
     = (roth_manager\<lparr>heap := [roth_entry, imported_roth, imported_roth],
          qa_data := Some
            \<lparr>metadata = \<lparr>total_qa_pairs = 3, md_categories = [''roth_ira_basics'', ''imported''],
                         md_category_counts = [], md_sources = [''Manual'', ''Import'']\<rparr>,
             qa_pairs = [0, 1, 2],
             categories = [(''roth_ira_basics'', [0]), (''imported'', [1, 2])]\<rparr>\<rparr>,
        Inr ())"
proof -
  have "normalized ''what is a roth ira?'' = normalized ''What is a Roth IRA?''"
    by code_simp
  then show ?thesis
    by (simp add: import_category_def import_one_def ensure_loaded_def roth_manager_def
          roth_store_def imported_roth_def bucket_append_def append_new_def set_if_def
          truthy_def Let_def)
qed

lemma deref_allocated:
  "map (\<lambda>r. (h @ ps @ ext) ! r) [length h ..< length h + length ps] = ps"
proof (rule nth_equalityI)
  show "length (map (\<lambda>r. (h @ ps @ ext) ! r) [length h ..< length h + length ps]) = length ps"
    by simp
next
  fix i
  assume "i < length (map (\<lambda>r. (h @ ps @ ext) ! r) [length h ..< length h + length ps])"
  then have "i < length ps" by simp
  then show "map (\<lambda>r. (h @ ps @ ext) ! r) [length h ..< length h + length ps] ! i = ps ! i"
    by (simp add: nth_append)
qed

lemma alloc_buckets_deref:
  "alloc_buckets bs h = (rbs, h2) \<Longrightarrow>
     (\<exists>ext. h2 = h @ ext) \<and> map (\<lambda>(c, rs). (c, map (\<lambda>r. h2 ! r) rs)) rbs = bs"
proof (induction bs arbitrary: h rbs h2)
  case Nil
  then show ?case by simp
next
  case (Cons b bs)
  obtain c ps where b: "b = (c, ps)" by (cases b)
  obtain rbs' h' where rec: "alloc_buckets bs (h @ ps) = (rbs', h')"
    by (cases "alloc_buckets bs (h @ ps)")
  from Cons.prems b rec have res: "rbs = (c, [length h ..< length h + length ps]) # rbs'" "h2 = h'"
    by (simp_all add: alloc_all_def)
  from Cons.IH [OF rec] obtain ext where
    ext: "h' = (h @ ps) @ ext" and rest: "map (\<lambda>(c, rs). (c, map (\<lambda>r. h' ! r) rs)) rbs' = bs"
    by blast
  have first: "map (\<lambda>r. h' ! r) [length h ..< length h + length ps] = ps"
    using ext deref_allocated [of h ps ext] by simp
  show ?case
    using res b ext rest first by simp
qed

lemma snapshot_materialize:
  assumes "materialize j h = (d, h2)"
  shows "snapshot h2 d = j"
proof -
  obtain cats h' where rec: "alloc_buckets (json_categories j) (h @ json_qa_pairs j) = (cats, h')"
    by (cases "alloc_buckets (json_categories j) (h @ json_qa_pairs j)")
  from assms rec have d: "d = \<lparr>metadata = json_metadata j,
      qa_pairs = [length h ..< length h + length (json_qa_pairs j)], categories = cats\<rparr>" "h2 = h'"
    by (simp_all add: materialize_def alloc_all_def)
  from alloc_buckets_deref [OF rec] obtain ext where
    ext: "h' = (h @ json_qa_pairs j) @ ext"
    and cs: "map (\<lambda>(c, rs). (c, map (\<lambda>r. h' ! r) rs)) cats = json_categories j"
    by blast
  have ps: "map (\<lambda>r. h' ! r) [length h ..< length h + length (json_qa_pairs j)] = json_qa_pairs j"
    using ext deref_allocated [of h "json_qa_pairs j" ext] by simp
  show ?thesis
    using d cs ps by (simp add: snapshot_def)
qed

text \<open>
  C8, as the code has it: saving a loaded store and loading the file again gives a store
  whose written form is the one that was saved: the same entries in the same order, the same
  metadata, and the categories view exactly as it was saved. \<open>load_qa_data\<close> compares
  nothing and recomputes nothing.
\<close>

theorem load_after_save_roundtrip:
  assumes "qa_data m = Some d"
    and "files (qa_data_file m) \<noteq> Some Malformed"
    and "qa_data_file m0 = qa_data_file m"
  shows "\<exists>files' m' d'.
     save_qa_data \<lparr>read_fails = False, backup_write = Written, primary_write = Written\<rparr>
         timestamp None m files = (files', Inr ())
     \<and> load_qa_data files' m0 = (m', Inr ())
     \<and> qa_data m' = Some d'
     \<and> snapshot (heap m') d' = snapshot (heap m) d"
proof -
  have s: "\<exists>files'. save_qa_data \<lparr>read_fails = False, backup_write = Written, primary_write = Written\<rparr>
         timestamp None m files = (files', Inr ())
      \<and> files' (qa_data_file m) = Some (Store_text (Some (snapshot (heap m) d)))"
    using assms(1,2)
    by (cases "files (qa_data_file m)")
       (auto simp: save_qa_data_def write_json_def Let_def split: file_content.splits)
  then obtain files' where
    sv: "save_qa_data \<lparr>read_fails = False, backup_write = Written, primary_write = Written\<rparr>
           timestamp None m files = (files', Inr ())"
    and f: "files' (qa_data_file m) = Some (Store_text (Some (snapshot (heap m) d)))"
    by blast
  obtain d' h' where mat: "materialize (snapshot (heap m) d) (heap m0) = (d', h')"
    by (cases "materialize (snapshot (heap m) d) (heap m0)")
  have ld: "load_qa_data files' m0 = (m0\<lparr>qa_data := Some d', heap := h'\<rparr>, Inr ())"
    using f mat assms(3) by (simp add: load_qa_data_def)
  have "snapshot h' d' = snapshot (heap m) d"
    using mat by (rule snapshot_materialize)
  with sv ld show ?thesis by simp
qed

theorem load_after_save_roundtrip_witness:
  "\<exists>files' m' d'.
     save_qa_data \<lparr>read_fails = False, backup_write = Written, primary_write = Written\<rparr>
         ''20240101_000000'' None roth_manager (disk_with stale_json) = (files', Inr ())
     \<and> load_qa_data files' unloaded_manager = (m', Inr ())
     \<and> qa_data m' = Some d'
     \<and> snapshot (heap m') d' = roth_json"
proof -
  have a: "qa_data roth_manager = Some roth_store"
    by (simp add: roth_manager_def)
  have b: "disk_with stale_json (qa_data_file roth_manager) \<noteq> Some Malformed"
    by (simp add: disk_with_def roth_manager_def)
  have c: "qa_data_file unloaded_manager = qa_data_file roth_manager"
    by (simp add: unloaded_manager_def roth_manager_def)
  have d: "snapshot (heap roth_manager) roth_store = roth_json"
    by (simp add: snapshot_def roth_manager_def roth_store_def roth_json_def)
  show ?thesis
    using a b c d
      load_after_save_roundtrip [where m = roth_manager and d = roth_store
        and files = "disk_with stale_json" and ?m0.0 = unloaded_manager
        and timestamp = "''20240101_000000''"]
    by simp
qed

theorem load_keeps_stale_categories_counterexample:
  "load_qa_data (disk_with stale_json) unloaded_manager
     = (unloaded_manager\<lparr>qa_data := Some
          \<lparr>metadata = \<lparr>total_qa_pairs = 1, md_categories = [''roth_ira_basics''],
                       md_category_counts = [], md_sources = [''Manual'']\<rparr>,
           qa_pairs = [0], categories = [(''old_category'', [])]\<rparr>,
          heap := [roth_entry]\<rparr>,
        Inr ())
   \<and> map_of roth_entry ''category'' = Some ''roth_ira_basics''"
  by (simp add: load_qa_data_def materialize_def alloc_all_def disk_with_def stale_json_def
        unloaded_manager_def roth_entry_def)

text \<open>
  C4, as the code has it. When the output file exists, holds JSON and is not the backup file
  itself, the backup step comes first. If it fails, the call ends with the output file as it
  was. If it succeeds, the backup file named after the timestamp holds what the output file
  held before the call. In every case the content from before the call is still in the
  output file or in the backup file.
\<close>

theorem save_backup_before_overwrite:
  assumes "out = (case output_file of None \<Rightarrow> qa_data_file m | Some f \<Rightarrow> f)"
    and "files out = Some (Store_text current_data)"
    and "out \<noteq> backup_file timestamp"
    and "save_qa_data env timestamp output_file m files = (files', res)"
  shows "(read_fails env \<or> backup_write env \<noteq> Written \<longrightarrow>
            res = Inl OSError \<and> files' out = files out)
     \<and> (\<not> read_fails env \<and> backup_write env = Written \<longrightarrow>
            files' (backup_file timestamp) = Some (Store_text current_data))
     \<and> (files' out = files out \<or> files' (backup_file timestamp) = files out)"
proof (cases "read_fails env")
  case True
  with assms show ?thesis
    by (auto simp: save_qa_data_def Let_def)
next
  case False
  with assms show ?thesis
    by (cases "backup_write env"; cases "primary_write env")
       (auto simp: save_qa_data_def write_json_def Let_def)
qed

theorem save_backup_before_overwrite_witness:
  "snd (save_qa_data backup_refused ''20240101_000000'' None roth_manager (disk_with stale_json))
     = Inl OSError
   \<and> fst (save_qa_data backup_refused ''20240101_000000'' None roth_manager (disk_with stale_json))
       ''comprehensive_qa_data.json'' = Some (Store_text (Some stale_json))
   \<and> fst (save_qa_data dump_interrupted ''20240101_000000'' None roth_manager (disk_with stale_json))
       (backup_file ''20240101_000000'') = Some (Store_text (Some stale_json))"
proof -
  have a: "''comprehensive_qa_data.json'' =
      (case None of None \<Rightarrow> qa_data_file roth_manager | Some f \<Rightarrow> f)"
    by (simp add: roth_manager_def)
  have b: "disk_with stale_json ''comprehensive_qa_data.json'' = Some (Store_text (Some stale_json))"
    by (simp add: disk_with_def)
  have c: "''comprehensive_qa_data.json'' \<noteq> backup_file ''20240101_000000''"
    by (simp add: backup_file_def)
  have d1: "save_qa_data backup_refused ''20240101_000000'' None roth_manager (disk_with stale_json)
      = (fst (save_qa_data backup_refused ''20240101_000000'' None roth_manager (disk_with stale_json)),
         snd (save_qa_data backup_refused ''20240101_000000'' None roth_manager (disk_with stale_json)))"
    by simp
  have d2: "save_qa_data dump_interrupted ''20240101_000000'' None roth_manager (disk_with stale_json)
      = (fst (save_qa_data dump_interrupted ''20240101_000000'' None roth_manager (disk_with stale_json)),
         snd (save_qa_data dump_interrupted ''20240101_000000'' None roth_manager (disk_with stale_json)))"
    by simp
  have e1: "backup_write backup_refused \<noteq> Written"
    by (simp add: backup_refused_def)
  have e2: "\<not> read_fails dump_interrupted \<and> backup_write dump_interrupted = Written"
    by (simp add: dump_interrupted_def)
  show ?thesis
    using save_backup_before_overwrite [OF a b c d1] save_backup_before_overwrite [OF a b c d2]
      e1 e2 b
    by simp
qed

theorem save_interrupted_counterexample:
  "disk_with stale_json ''comprehensive_qa_data.json'' = Some (Store_text (Some stale_json))
   \<and> snd (save_qa_data dump_interrupted ''20240101_000000'' None roth_manager (disk_with stale_json))
       = Inl OSError
   \<and> fst (save_qa_data dump_interrupted ''20240101_000000'' None roth_manager (disk_with stale_json))
       ''comprehensive_qa_data.json'' = Some Malformed"
  by (simp add: save_qa_data_def write_json_def disk_with_def dump_interrupted_def
        roth_manager_def backup_file_def Let_def)

end
